theory Spec2Isabelle
  imports Main "HOL-Library.Sublist"
begin

section \<open>Data model (models.py)\<close>

text \<open>
  A \<^verbatim>\<open>datetime\<close> is modelled as the number of microseconds since a fixed epoch, the
  resolution of Python's type. The difference of two of them is a \<^verbatim>\<open>timedelta\<close>, again a
  number of microseconds; its \<^verbatim>\<open>days\<close> attribute is the floor of the quotient by one day,
  which is negative for a negative difference.
\<close>

type_synonym datetime = int

definition day_us :: int where
  "day_us = 86400000000"

definition days :: "int \<Rightarrow> int" where
  "days delta = delta div day_us"

text \<open>
  Class \<^verbatim>\<open>User\<close>. Python integers are unbounded, so \<open>tokens\<close> is an \<open>int\<close>; \<open>plan\<close> is
  the string column of the source. The two timestamp columns may hold \<^verbatim>\<open>None\<close>.
\<close>

record user =
  uid :: int
  username :: string
  email :: string
  password :: string
  first_name :: "string option"
  last_name :: "string option"
  plan :: string
  tokens :: int
  last_token_reset :: "datetime option"
  last_generated :: "datetime option"

text \<open>Class \<^verbatim>\<open>Resume\<close>; the fields carry the prefix \<open>r_\<close>.\<close>

record resume =
  r_id :: int
  r_user_id :: int
  r_name :: string
  r_profession :: string
  r_email :: string
  r_phone :: string
  r_linkedin :: string
  r_bio :: string
  r_skills :: string
  r_job_title :: string
  r_company :: string
  r_job_desc :: string
  r_degree :: string
  r_institute :: string
  r_grad_year :: string
  r_profile_pic_url :: "string option"
  r_template :: string
  r_timestamp :: datetime

text \<open>Class \<^verbatim>\<open>Purchase\<close>, the ledger; the fields carry the prefix \<open>p_\<close>.\<close>

record purchase =
  p_id :: int
  p_user_id :: int
  p_amount :: int
  p_description :: string
  p_timestamp :: datetime

subsection \<open>Plan helpers and token logic of \<^verbatim>\<open>User\<close>\<close>

definition is_free_user :: "user \<Rightarrow> bool" where
  "is_free_user u = (plan u = ''free'')"

definition is_pro_user :: "user \<Rightarrow> bool" where
  "is_pro_user u = (plan u = ''pro'')"

definition is_ultimate_user :: "user \<Rightarrow> bool" where
  "is_ultimate_user u = (plan u = ''ultimate'')"

definition has_tokens :: "user \<Rightarrow> bool" where
  "has_tokens u = (tokens u > 0 \<or> is_ultimate_user u)"

definition deduct_token :: "user \<Rightarrow> user" where
  "deduct_token u =
     (if \<not> is_ultimate_user u then u\<lparr>tokens := max 0 (tokens u - 1)\<rparr> else u)"

text \<open>
  \<^verbatim>\<open>reset_tokens_if_needed\<close> reads the clock itself; the reading is the parameter \<open>now\<close>.
  A missing \<^verbatim>\<open>last_token_reset\<close> counts as due.
\<close>

definition reset_tokens_if_needed :: "datetime \<Rightarrow> user \<Rightarrow> user" where
  "reset_tokens_if_needed now u =
     (if (case last_token_reset u of None \<Rightarrow> True | Some t \<Rightarrow> days (now - t) \<ge> 1)
      then
        (let u1 = (if is_free_user u then u\<lparr>tokens := 3\<rparr>
                   else if is_pro_user u then u\<lparr>tokens := 15\<rparr>
                   else u)
         in u1\<lparr>last_token_reset := Some now\<rparr>)
      else u)"

section \<open>Strings\<close>

text \<open>
  A string is the UTF-8 encoding of the Python \<^verbatim>\<open>str\<close>, one \<open>char\<close> per byte.
  \<^verbatim>\<open>str.strip()\<close> without argument removes leading and trailing whitespace characters.
  Python's whitespace is the code points 9 to 13, 28 to 32, U+0085, U+00A0, U+1680,
  U+2000 to U+200A, U+2028, U+2029, U+202F, U+205F and U+3000; \<open>whitespace\<close> lists their
  encodings. A leading byte of an encoding is never a continuation byte, so in an encoded
  string a prefix (or a suffix) equal to one of them is that character.
\<close>

definition whitespace :: "string list" where
  "whitespace =
     [[CHR 0x09], [CHR 0x0A], [CHR 0x0B], [CHR 0x0C], [CHR 0x0D],
      [CHR 0x1C], [CHR 0x1D], [CHR 0x1E], [CHR 0x1F], [CHR 0x20],
      [CHR 0xC2, CHR 0x85], [CHR 0xC2, CHR 0xA0], [CHR 0xE1, CHR 0x9A, CHR 0x80],
      [CHR 0xE2, CHR 0x80, CHR 0x80], [CHR 0xE2, CHR 0x80, CHR 0x81],
      [CHR 0xE2, CHR 0x80, CHR 0x82], [CHR 0xE2, CHR 0x80, CHR 0x83],
      [CHR 0xE2, CHR 0x80, CHR 0x84], [CHR 0xE2, CHR 0x80, CHR 0x85],
      [CHR 0xE2, CHR 0x80, CHR 0x86], [CHR 0xE2, CHR 0x80, CHR 0x87],
      [CHR 0xE2, CHR 0x80, CHR 0x88], [CHR 0xE2, CHR 0x80, CHR 0x89],
      [CHR 0xE2, CHR 0x80, CHR 0x8A], [CHR 0xE2, CHR 0x80, CHR 0xA8],
      [CHR 0xE2, CHR 0x80, CHR 0xA9], [CHR 0xE2, CHR 0x80, CHR 0xAF],
      [CHR 0xE2, CHR 0x81, CHR 0x9F], [CHR 0xE3, CHR 0x80, CHR 0x80]]"

text \<open>Removing, again and again, whichever of the byte sequences \<open>ws\<close> the string starts with.\<close>

function drop_leading :: "string list \<Rightarrow> string \<Rightarrow> string" where
  "drop_leading ws s =
     (case find (\<lambda>w. w \<noteq> [] \<and> prefix w s) ws of
        None \<Rightarrow> s
      | Some w \<Rightarrow> drop_leading ws (drop (length w) s))"
  by pat_completeness auto
termination
  by (relation "measure (\<lambda>(ws, s). length s)") (auto simp: find_Some_iff prefix_def)

declare drop_leading.simps [simp del]

definition strip :: "string \<Rightarrow> string" where
  "strip s = rev (drop_leading (map rev whitespace) (rev (drop_leading whitespace s)))"





section \<open>AI utility (app.py)\<close>

text \<open>
  The call \<^verbatim>\<open>requests.post(..., timeout=10)\<close> leaves the program. What comes back is
  either an exception (no connection, a timeout) or a response with a status code; the
  second field of \<open>HttpResponse\<close> is the string found at
  \<^verbatim>\<open>json()["choices"][0]["message"]["content"]\<close>, and \<open>None\<close> when reading it raises.
  The service is a parameter: a function of the user prompt and the system prompt.
\<close>

datatype http_result = RequestException | HttpResponse int "string option"

type_synonym ai_service = "string \<Rightarrow> string \<Rightarrow> http_result"

text \<open>
  Every exception inside the \<^verbatim>\<open>try\<close> block is caught and printed, after which the
  function returns \<^verbatim>\<open>None\<close>, as it does for a status other than 200.
\<close>

definition get_ai_response :: "ai_service \<Rightarrow> string \<Rightarrow> string \<Rightarrow> string option" where
  "get_ai_response post prompt system_prompt =
     (case post prompt system_prompt of
        RequestException \<Rightarrow> None
      | HttpResponse status_code content \<Rightarrow>
          (if status_code = 200
           then (case content of None \<Rightarrow> None | Some c \<Rightarrow> Some (strip c))
           else None))"

text \<open>The two dashes of the prompt are outside ASCII and are given by their UTF-8 bytes.\<close>

definition bio_prompt :: "string \<Rightarrow> string \<Rightarrow> string \<Rightarrow> string" where
  "bio_prompt name profession skills =
     ''Write a first-person 2'' @ [CHR 0xE2, CHR 0x80, CHR 0x93] @
     ''3 sentence summary for a resume. '' @
     ''The person is named '' @ name @ '', a '' @ profession @
     '', skilled in '' @ skills @ ''. '' @
     ''The tone should be confident, creative, and slightly poetic'' @
     [CHR 0xE2, CHR 0x80, CHR 0x94] @ ''like a personal brand pitch. '' @
     ''Begin with '' @ [CHR 0x27] @ ''I am'' @ [CHR 0x27] @ '' or '' @
     [CHR 0x27] @ ''I'' @ [CHR 0x27] @ ''m'' @ [CHR 0x27] @
     ''. Mention how their skills come together to create functional and meaningful work.''"

definition bio_system :: string where
  "bio_system =
     ''You are a professional copywriter for personal branding. '' @
     ''Avoid generic fluff. Keep it human and inspired.''"

definition fallback_bio :: "string \<Rightarrow> string \<Rightarrow> string \<Rightarrow> string" where
  "fallback_bio name profession skills =
     ''I'' @ [CHR 0x27] @ ''m '' @ name @ '', a '' @ profession @ '' skilled in '' @ skills @
     '', blending creativity and logic to craft meaningful work.''"

text \<open>
  \<^verbatim>\<open>get_ai_response(prompt, system) or (fallback)\<close>: Python's \<^verbatim>\<open>or\<close> takes the right
  operand when the left one is \<^verbatim>\<open>None\<close> or the empty string.
\<close>

definition generate_bio :: "ai_service \<Rightarrow> string \<Rightarrow> string \<Rightarrow> string \<Rightarrow> string" where
  "generate_bio post name profession skills =
     (case get_ai_response post (bio_prompt name profession skills) bio_system of
        None \<Rightarrow> fallback_bio name profession skills
      | Some text \<Rightarrow> if text \<noteq> [] then text else fallback_bio name profession skills)"

section \<open>Routes (app.py)\<close>

text \<open>
  The handlers below run behind \<^verbatim>\<open>@login_required\<close>: \<open>current_user\<close> is the row of the
  authenticated account. The state they work on is that row and the two tables they read
  and write. A handler returns its outcome and the state as committed.

  The source reports a rejected request by a flashed message and a redirect, or by an
  HTTP error; the model names these outcomes:
  \<^item> \<open>TemplateNotAllowed\<close>: "This template is only available for Pro or Ultimate users.",
    redirect to \<^verbatim>\<open>pricing\<close>;
  \<^item> \<open>OutOfTokens\<close>: "You're out of tokens. ...", redirect to \<^verbatim>\<open>pricing\<close>;
  \<^item> \<open>InvalidTokenPack\<close>: "Invalid token pack selected.", redirect to \<^verbatim>\<open>pricing\<close>;
  \<^item> \<open>InvalidPlan\<close>: "Invalid upgrade option.", redirect to \<^verbatim>\<open>pricing\<close>;
  \<^item> \<open>Unauthorized\<close>: "Unauthorized", redirect to \<^verbatim>\<open>start\<close>;
  \<^item> \<open>NotFound\<close>: the 404 of \<^verbatim>\<open>get_or_404\<close>;
  \<^item> \<open>BadRequest\<close>: the 400 raised by \<^verbatim>\<open>form['name']\<close> on a missing key;
  \<^item> \<open>EmailTaken\<close>: "Email already registered.", redirect to \<^verbatim>\<open>register\<close>;
  \<^item> \<open>IntegrityError\<close>: the commit refused by a \<^verbatim>\<open>unique=True\<close> column;
  \<^item> \<open>InternalServerError\<close>: the 500 of an exception that \<^verbatim>\<open>pic.save\<close> raises.
\<close>

datatype error =
  TemplateNotAllowed | OutOfTokens | InvalidPlan | InvalidTokenPack | Unauthorized
  | NotFound | BadRequest | EmailTaken | IntegrityError | InternalServerError

datatype response = Redirect string | Render string | RenderResume string resume

record state =
  current_user :: user
  resumes :: "resume list"
  purchases :: "purchase list"

text \<open>
  The store gives a new row its integer primary key: one more than the largest key in
  the table, 1 in an empty table.
\<close>

definition next_id :: "int list \<Rightarrow> int" where
  "next_id ids = fold max ids 0 + 1"

subsection \<open>\<^verbatim>\<open>generate\<close>\<close>


record generate_env =
  FREE_TEMPLATES :: "string list"
  post :: ai_service
  secure_filename :: "string \<Rightarrow> string"
  save_ok :: "string \<Rightarrow> bool"
  now_reset :: datetime
  now_generated :: datetime
  now_insert :: datetime





subsection \<open>\<^verbatim>\<open>delete_resume\<close>\<close>

definition delete_resume :: "int \<Rightarrow> state \<Rightarrow> (error + response) \<times> state" where
  "delete_resume resume_id s =
     (case find (\<lambda>r. r_id r = resume_id) (resumes s) of
        None \<Rightarrow> (Inl NotFound, s)
      | Some r \<Rightarrow>
          if r_user_id r \<noteq> uid (current_user s) then (Inl Unauthorized, s)
          else (Inr (Redirect ''my_resumes''),
                s\<lparr>resumes := filter (\<lambda>x. r_id x \<noteq> resume_id) (resumes s)\<rparr>))"

subsection \<open>\<^verbatim>\<open>buy_token\<close> and \<^verbatim>\<open>upgrade\<close>\<close>

text \<open>\<^verbatim>\<open>f"{count}"\<close>: the decimal digits of an integer.\<close>

definition digit_char :: "nat \<Rightarrow> char" where
  "digit_char d = ''0123456789'' ! d"

function str_nat :: "nat \<Rightarrow> string" where
  "str_nat n = (if n < 10 then [digit_char n] else str_nat (n div 10) @ [digit_char (n mod 10)])"
  by pat_completeness auto
termination
  by (relation "measure (\<lambda>n. n)") auto

declare str_nat.simps [simp del]

definition str_int :: "int \<Rightarrow> string" where
  "str_int i = (if i < 0 then CHR ''-'' # str_nat (nat (- i)) else str_nat (nat i))"

definition price_map :: "int \<rightharpoonup> int" where
  "price_map = [1 \<mapsto> 50, 5 \<mapsto> 100]"

text \<open>
  The new \<^verbatim>\<open>Purchase\<close> row takes its \<^verbatim>\<open>timestamp\<close> from the clock when it is inserted;
  the reading is the parameter \<open>now\<close>.
\<close>

definition buy_token :: "datetime \<Rightarrow> int \<Rightarrow> state \<Rightarrow> (error + response) \<times> state" where
  "buy_token now count s =
     (let amount = (case price_map count of None \<Rightarrow> 0 | Some a \<Rightarrow> a)
      in
        if amount = 0 then (Inl InvalidTokenPack, s)
        else
          (let cu = current_user s;
               new_purchase =
                 \<lparr>p_id = next_id (map p_id (purchases s)),
                  p_user_id = uid cu,
                  p_amount = amount,
                  p_description = str_int count @ '' Token Pack'',
                  p_timestamp = now\<rparr>
           in (Inr (Redirect ''pricing''),
               s\<lparr>current_user := cu\<lparr>tokens := tokens cu + count\<rparr>,
                 purchases := purchases s @ [new_purchase]\<rparr>)))"

definition upgrade :: "datetime \<Rightarrow> string \<Rightarrow> state \<Rightarrow> (error + response) \<times> state" where
  "upgrade now new_plan s =
     (let cu = current_user s in
        if new_plan = ''pro'' then
          (Inr (Redirect ''my_resumes''),
           s\<lparr>current_user := cu\<lparr>tokens := tokens cu + 15, plan := ''pro''\<rparr>,
             purchases := purchases s @
               [\<lparr>p_id = next_id (map p_id (purchases s)), p_user_id = uid cu,
                 p_amount = 199, p_description = ''Pro Pack'', p_timestamp = now\<rparr>]\<rparr>)
        else if new_plan = ''ultimate'' then
          (Inr (Redirect ''my_resumes''),
           s\<lparr>current_user := cu\<lparr>tokens := 9999, plan := ''ultimate''\<rparr>,
             purchases := purchases s @
               [\<lparr>p_id = next_id (map p_id (purchases s)), p_user_id = uid cu,
                 p_amount = 499, p_description = ''Ultimate Pack'', p_timestamp = now\<rparr>]\<rparr>)
        else (Inl InvalidPlan, s))"

subsection \<open>\<^verbatim>\<open>register\<close>\<close>

text \<open>
  The route works on the table of accounts and on the login session.
  \<open>validate_on_submit\<close> is the verdict of the form library on the request;
  \<open>generate_password_hash\<close> (werkzeug) and \<open>lower\<close> (\<^verbatim>\<open>str.lower\<close>) are parameters.
  \<^verbatim>\<open>username\<close> is declared \<^verbatim>\<open>unique=True\<close>, so the commit of a second account with the
  same first and last name is refused. \<^verbatim>\<open>last_token_reset\<close> takes its default, the clock
  when the row is inserted.
\<close>

record register_form =
  validate_on_submit :: bool
  f_first_name :: string
  f_last_name :: string
  f_email :: string
  f_password :: string

record accounts =
  users :: "user list"
  logged_in :: "int option"

definition register ::
  "(string \<Rightarrow> string) \<Rightarrow> (string \<Rightarrow> string) \<Rightarrow> datetime \<Rightarrow> register_form \<Rightarrow> accounts \<Rightarrow>
     (error + response) \<times> accounts" where
  "register generate_password_hash lower now frm a =
     (if validate_on_submit frm then
        (if find (\<lambda>u. email u = f_email frm) (users a) \<noteq> None then (Inl EmailTaken, a)
         else
           (let new_username = lower (f_first_name frm) @ ''.'' @ lower (f_last_name frm);
                hashed_pw = generate_password_hash (f_password frm);
                new_user =
                  \<lparr>uid = next_id (map uid (users a)),
                   username = new_username,
                   email = f_email frm,
                   password = hashed_pw,
                   first_name = Some (f_first_name frm),
                   last_name = Some (f_last_name frm),
                   plan = ''free'',
                   tokens = 3,
                   last_token_reset = Some now,
                   last_generated = None\<rparr>
            in
              if find (\<lambda>u. username u = new_username) (users a) \<noteq> None
              then (Inl IntegrityError, a)
              else (Inr (Redirect ''index''),
                    a\<lparr>users := users a @ [new_user], logged_in := Some (uid new_user)\<rparr>)))
      else (Inr (Render ''register.html''), a))"

section \<open>Sample data\<close>

text \<open>A free account, as \<^verbatim>\<open>register\<close> creates it, for the concrete instances below.\<close>

definition alice :: user where
  "alice = \<lparr>uid = 1, username = ''ada.lovelace'', email = ''ada@example.org'',
            password = ''pbkdf2'', first_name = Some ''Ada'', last_name = Some ''Lovelace'',
            plan = ''free'', tokens = 3, last_token_reset = Some 0, last_generated = None\<rparr>"

text \<open>
  Another account's resume, a state of the free account with it in the table, two settings
  of \<^verbatim>\<open>generate\<close> (the service unreachable, the service answering), five requests, and a
  registration. The bio of \<open>req_nbsp\<close> is a no-break space; the upload of
  \<open>req_bad_upload\<close> has a name that \<open>secure_filename\<close> empties.
\<close>

definition bob_resume :: resume where
  "bob_resume = \<lparr>r_id = 7, r_user_id = 2, r_name = ''Bob'', r_profession = ''Baker'',
     r_email = ''bob@example.org'', r_phone = [], r_linkedin = [], r_bio = ''I bake.'',
     r_skills = ''bread,cake'', r_job_title = [], r_company = [], r_job_desc = [],
     r_degree = [], r_institute = [], r_grad_year = [], r_profile_pic_url = None,
     r_template = ''classic'', r_timestamp = 1000\<rparr>"

definition st0 :: state where
  "st0 = \<lparr>current_user = alice, resumes = [bob_resume], purchases = []\<rparr>"








definition frm0 :: register_form where
  "frm0 = \<lparr>validate_on_submit = True, f_first_name = ''Grace'', f_last_name = ''Hopper'',
            f_email = ''grace@example.org'', f_password = ''secret1''\<rparr>"

definition acc0 :: accounts where
  "acc0 = \<lparr>users = [alice], logged_in = None\<rparr>"

section \<open>Quota policy: properties\<close>

lemma div_ge_1_iff: "0 < d \<Longrightarrow> (1 \<le> x div d) = (d \<le> (x::int))"
  using pos_imp_zdiv_pos_iff [of d x] by auto

lemma days_ge_1_iff: "days delta \<ge> 1 \<longleftrightarrow> delta \<ge> day_us"
  unfolding days_def day_us_def by (rule div_ge_1_iff) simp

lemma reset_due:
  "last_token_reset u = Some t \<Longrightarrow> day_us \<le> now - t \<Longrightarrow>
   reset_tokens_if_needed now u =
     u\<lparr>tokens := (if plan u = ''free'' then 3 else if plan u = ''pro'' then 15 else tokens u),
       last_token_reset := Some now\<rparr>"
  by (simp add: reset_tokens_if_needed_def days_ge_1_iff is_free_user_def is_pro_user_def)

lemma reset_not_due:
  "last_token_reset u = Some t \<Longrightarrow> now - t < day_us \<Longrightarrow> reset_tokens_if_needed now u = u"
  by (simp add: reset_tokens_if_needed_def days_ge_1_iff)

text \<open>
  C5: \<open>has_tokens\<close> holds exactly when the balance is positive or the plan is ultimate; so
  every ultimate account has tokens whatever its balance, also with balance 0.
\<close>

theorem has_tokens_iff:
  "(has_tokens u \<longleftrightarrow> tokens u > 0 \<or> plan u = ''ultimate'') \<and>
   (plan u = ''ultimate'' \<longrightarrow> has_tokens u) \<and>
   has_tokens (u\<lparr>plan := ''ultimate'', tokens := 0\<rparr>)"
  by (simp add: has_tokens_def is_ultimate_user_def)

theorem has_tokens_iff_witness:
  "plan (alice\<lparr>plan := ''ultimate'', tokens := 0\<rparr>) = ''ultimate'' \<and>
   has_tokens (alice\<lparr>plan := ''ultimate'', tokens := 0\<rparr>) \<and>
   \<not> has_tokens (alice\<lparr>tokens := 0\<rparr>)"
  using has_tokens_iff [of "alice\<lparr>plan := ''ultimate'', tokens := 0\<rparr>"]
    has_tokens_iff [of "alice\<lparr>tokens := 0\<rparr>"]
  by (simp add: alice_def)

text \<open>
  C4: \<open>deduct_token\<close> sets the balance to \<open>max 0 (tokens - 1)\<close> unless the plan is
  ultimate, and leaves an ultimate account as it is; the balance does not become negative:
  it is non-negative after the call on every non-ultimate account, and on every account
  whose balance was non-negative before.
\<close>

theorem deduct_token_spec:
  "(plan u \<noteq> ''ultimate'' \<longrightarrow> deduct_token u = u\<lparr>tokens := max 0 (tokens u - 1)\<rparr>) \<and>
   (plan u = ''ultimate'' \<longrightarrow> deduct_token u = u) \<and>
   (plan u \<noteq> ''ultimate'' \<longrightarrow> 0 \<le> tokens (deduct_token u)) \<and>
   (0 \<le> tokens u \<longrightarrow> 0 \<le> tokens (deduct_token u))"
  by (simp add: deduct_token_def is_ultimate_user_def)

theorem deduct_token_spec_witness:
  "plan alice \<noteq> ''ultimate'' \<and> 0 \<le> tokens alice \<and>
   tokens (deduct_token alice) = 2 \<and>
   tokens (deduct_token (alice\<lparr>tokens := 0\<rparr>)) = 0 \<and>
   plan (alice\<lparr>plan := ''ultimate''\<rparr>) = ''ultimate'' \<and>
   deduct_token (alice\<lparr>plan := ''ultimate''\<rparr>) = alice\<lparr>plan := ''ultimate''\<rparr>"
  using deduct_token_spec [of alice] deduct_token_spec [of "alice\<lparr>tokens := 0\<rparr>"]
    deduct_token_spec [of "alice\<lparr>plan := ''ultimate''\<rparr>"]
  by (simp add: alice_def)

text \<open>
  C3: for an account last reset at \<open>t\<close>, \<open>reset_tokens_if_needed\<close> at time \<open>now\<close> sets the
  balance to the daily allotment of the plan (3 for free, 15 for pro, unchanged otherwise)
  and \<open>last_token_reset\<close> to \<open>now\<close> when \<open>now - t\<close> is at least one day, and changes nothing
  when it is less. Hence after a reset at \<open>now\<close> a second call less than a day later is
  a no-op (the reset happened once, at \<open>now\<close>), and two calls inside the day that began
  at \<open>t\<close> both change nothing.
\<close>

theorem reset_tokens_if_needed_spec:
  assumes "last_token_reset u = Some t"
  shows "(day_us \<le> now - t \<longrightarrow>
            reset_tokens_if_needed now u =
              u\<lparr>tokens := (if plan u = ''free'' then 3
                            else if plan u = ''pro'' then 15 else tokens u),
                last_token_reset := Some now\<rparr>) \<and>
         (now - t < day_us \<longrightarrow> reset_tokens_if_needed now u = u) \<and>
         (day_us \<le> now - t \<and> now' - now < day_us \<longrightarrow>
            reset_tokens_if_needed now' (reset_tokens_if_needed now u) =
              reset_tokens_if_needed now u \<and>
            last_token_reset (reset_tokens_if_needed now' (reset_tokens_if_needed now u)) =
              Some now) \<and>
         (now - t < day_us \<and> now' - t < day_us \<longrightarrow>
            reset_tokens_if_needed now' (reset_tokens_if_needed now u) = u)"
proof (intro conjI impI)
  assume "day_us \<le> now - t"
  with assms show "reset_tokens_if_needed now u =
      u\<lparr>tokens := (if plan u = ''free'' then 3 else if plan u = ''pro'' then 15 else tokens u),
        last_token_reset := Some now\<rparr>"
    by (rule reset_due)
next
  assume "now - t < day_us"
  with assms show "reset_tokens_if_needed now u = u"
    by (rule reset_not_due)
next
  assume h: "day_us \<le> now - t \<and> now' - now < day_us"
  let ?u1 = "reset_tokens_if_needed now u"
  from assms h have l: "last_token_reset ?u1 = Some now"
    by (simp add: reset_due)
  from l h show "reset_tokens_if_needed now' ?u1 = ?u1"
    by (simp add: reset_not_due)
  with l show "last_token_reset (reset_tokens_if_needed now' ?u1) = Some now"
    by simp
next
  assume h: "now - t < day_us \<and> now' - t < day_us"
  with assms show "reset_tokens_if_needed now' (reset_tokens_if_needed now u) = u"
    by (simp add: reset_not_due)
qed

theorem reset_tokens_if_needed_spec_witness:
  "last_token_reset (alice\<lparr>tokens := 0\<rparr>) = Some 0 \<and>
   day_us \<le> 90000000000 - 0 \<and> 100000000000 - 90000000000 < day_us \<and>
   reset_tokens_if_needed 90000000000 (alice\<lparr>tokens := 0\<rparr>) =
     alice\<lparr>tokens := 3, last_token_reset := Some 90000000000\<rparr> \<and>
   reset_tokens_if_needed 100000000000
       (reset_tokens_if_needed 90000000000 (alice\<lparr>tokens := 0\<rparr>)) =
     alice\<lparr>tokens := 3, last_token_reset := Some 90000000000\<rparr> \<and>
   (5000 :: int) - 0 < day_us \<and> (6000 :: int) - 0 < day_us \<and>
   reset_tokens_if_needed 6000 (reset_tokens_if_needed 5000 (alice\<lparr>tokens := 0\<rparr>)) =
     alice\<lparr>tokens := 0\<rparr>"
proof -
  let ?u = "alice\<lparr>tokens := 0\<rparr>"
  have h: "last_token_reset ?u = Some 0"
    by (simp add: alice_def)
  have d1: "day_us \<le> 90000000000 - 0" and d2: "100000000000 - 90000000000 < day_us"
    and d3: "(5000 :: int) - 0 < day_us" and d4: "(6000 :: int) - 0 < day_us"
    by (simp_all add: day_us_def)
  note due = reset_tokens_if_needed_spec [OF h, of 90000000000 100000000000]
  note idle = reset_tokens_if_needed_spec [OF h, of 5000 6000]
  from due d1 have r1: "reset_tokens_if_needed 90000000000 ?u =
      alice\<lparr>tokens := 3, last_token_reset := Some 90000000000\<rparr>"
    by (simp add: alice_def)
  from due d1 d2 have "reset_tokens_if_needed 100000000000
      (reset_tokens_if_needed 90000000000 ?u) = reset_tokens_if_needed 90000000000 ?u"
    by blast
  with r1 have r2: "reset_tokens_if_needed 100000000000
      (reset_tokens_if_needed 90000000000 ?u) =
      alice\<lparr>tokens := 3, last_token_reset := Some 90000000000\<rparr>"
    by simp
  from idle d3 d4 have r3:
    "reset_tokens_if_needed 6000 (reset_tokens_if_needed 5000 ?u) = ?u"
    by blast
  from h d1 d2 d3 d4 r1 r2 r3 show ?thesis
    by blast
qed

lemma reset_never_reset:
  "last_token_reset u = None \<Longrightarrow>
   reset_tokens_if_needed now u =
     u\<lparr>tokens := (if plan u = ''free'' then 3 else if plan u = ''pro'' then 15 else tokens u),
       last_token_reset := Some now\<rparr>"
  by (simp add: reset_tokens_if_needed_def is_free_user_def is_pro_user_def)

section \<open>Bio generation: properties\<close>

lemma fallback_bio_contains:
  "sublist name (fallback_bio name profession skills) \<and>
   sublist profession (fallback_bio name profession skills) \<and>
   sublist skills (fallback_bio name profession skills)"
proof (intro conjI)
  have "fallback_bio name profession skills =
      (''I'' @ [CHR 0x27] @ ''m '') @ name @
      ('', a '' @ profession @ '' skilled in '' @ skills @
       '', blending creativity and logic to craft meaningful work.'')"
    by (simp add: fallback_bio_def)
  then show "sublist name (fallback_bio name profession skills)"
    by (simp only: sublist_appendI)
  have "fallback_bio name profession skills =
      (''I'' @ [CHR 0x27] @ ''m '' @ name @ '', a '') @ profession @
      ('' skilled in '' @ skills @ '', blending creativity and logic to craft meaningful work.'')"
    by (simp add: fallback_bio_def)
  then show "sublist profession (fallback_bio name profession skills)"
    by (simp only: sublist_appendI)
  have "fallback_bio name profession skills =
      (''I'' @ [CHR 0x27] @ ''m '' @ name @ '', a '' @ profession @ '' skilled in '') @ skills @
      '', blending creativity and logic to craft meaningful work.''"
    by (simp add: fallback_bio_def)
  then show "sublist skills (fallback_bio name profession skills)"
    by (simp only: sublist_appendI)
qed


text \<open>
  C9: for every name, profession and skills, when the request to the service raises (no
  connection, a timeout) or answers with a status other than 200, \<open>generate_bio\<close> returns
  the templated sentence built from the same three fields, which contains each of them;
  the result is a plain string, no error reaches the caller.
\<close>

theorem generate_bio_absorbs_failure:
  assumes "svc (bio_prompt name profession skills) bio_system = RequestException \<or>
           (\<exists>code body. svc (bio_prompt name profession skills) bio_system =
              HttpResponse code body \<and> code \<noteq> 200)"
  shows "generate_bio svc name profession skills = fallback_bio name profession skills \<and>
         sublist name (generate_bio svc name profession skills) \<and>
         sublist profession (generate_bio svc name profession skills) \<and>
         sublist skills (generate_bio svc name profession skills)"
proof -
  from assms have "get_ai_response svc (bio_prompt name profession skills) bio_system = None"
    by (auto simp: get_ai_response_def)
  then have "generate_bio svc name profession skills = fallback_bio name profession skills"
    by (simp add: generate_bio_def)
  then show ?thesis
    by (simp only: fallback_bio_contains simp_thms)
qed

theorem generate_bio_absorbs_failure_witness:
  "(\<lambda>prompt system_prompt. RequestException)
       (bio_prompt ''Ada'' ''Engineer'' ''maths, engines'') bio_system = RequestException \<and>
   (\<lambda>prompt system_prompt. HttpResponse 503 (Some ''Service Unavailable''))
       (bio_prompt ''Ada'' ''Engineer'' ''maths, engines'') bio_system =
     HttpResponse 503 (Some ''Service Unavailable'') \<and>
   (503 :: int) \<noteq> 200 \<and>
   generate_bio (\<lambda>prompt system_prompt. RequestException)
       ''Ada'' ''Engineer'' ''maths, engines'' =
     ''I'' @ [CHR 0x27] @ ''m Ada, a Engineer skilled in maths, engines, blending creativity and logic to craft meaningful work.'' \<and>
   generate_bio (\<lambda>prompt system_prompt. HttpResponse 503 (Some ''Service Unavailable''))
       ''Ada'' ''Engineer'' ''maths, engines'' =
     fallback_bio ''Ada'' ''Engineer'' ''maths, engines''"
proof -
  have down: "(\<lambda>prompt system_prompt. RequestException)
      (bio_prompt ''Ada'' ''Engineer'' ''maths, engines'') bio_system = RequestException \<or>
    (\<exists>code body. (\<lambda>prompt system_prompt. RequestException)
      (bio_prompt ''Ada'' ''Engineer'' ''maths, engines'') bio_system =
        HttpResponse code body \<and> code \<noteq> 200)"
    by simp
  have busy: "(\<lambda>prompt system_prompt. HttpResponse 503 (Some ''Service Unavailable''))
      (bio_prompt ''Ada'' ''Engineer'' ''maths, engines'') bio_system = RequestException \<or>
    (\<exists>code body. (\<lambda>prompt system_prompt. HttpResponse 503 (Some ''Service Unavailable''))
      (bio_prompt ''Ada'' ''Engineer'' ''maths, engines'') bio_system =
        HttpResponse code body \<and> code \<noteq> 200)"
    by simp
  from generate_bio_absorbs_failure [OF down] generate_bio_absorbs_failure [OF busy]
  show ?thesis
    by (simp add: fallback_bio_def)
qed

section \<open>Purchases and upgrades: properties\<close>

lemma price_map_Some: "price_map count = Some price \<Longrightarrow>
  (count = 1 \<and> price = 50) \<or> (count = 5 \<and> price = 100)"
  by (auto simp: price_map_def split: if_splits)

text \<open>
  C6: the price table is \<open>{1: 50, 5: 100}\<close>. For a count in the table \<open>buy_token\<close> adds
  exactly \<open>count\<close> to the balance and appends exactly one ledger entry, whose amount is the
  price of the table (50 for count 1); for a count outside the table (3, say) it gives
  \<open>InvalidTokenPack\<close> and leaves account and ledger as they were.
\<close>

theorem buy_token_spec:
  "(price_map count = Some price \<longrightarrow>
      buy_token now count s =
        (Inr (Redirect ''pricing''),
         s\<lparr>current_user := (current_user s)\<lparr>tokens := tokens (current_user s) + count\<rparr>,
           purchases := purchases s @
             [\<lparr>p_id = next_id (map p_id (purchases s)), p_user_id = uid (current_user s),
               p_amount = price, p_description = str_int count @ '' Token Pack'',
               p_timestamp = now\<rparr>]\<rparr>)) \<and>
   (price_map count = None \<longrightarrow> buy_token now count s = (Inl InvalidTokenPack, s)) \<and>
   dom price_map = {1, 5} \<and> price_map 1 = Some 50 \<and> price_map 5 = Some 100 \<and>
   price_map 3 = None"
proof (intro conjI impI)
  assume "price_map count = Some price"
  then show "buy_token now count s =
        (Inr (Redirect ''pricing''),
         s\<lparr>current_user := (current_user s)\<lparr>tokens := tokens (current_user s) + count\<rparr>,
           purchases := purchases s @
             [\<lparr>p_id = next_id (map p_id (purchases s)), p_user_id = uid (current_user s),
               p_amount = price, p_description = str_int count @ '' Token Pack'',
               p_timestamp = now\<rparr>]\<rparr>)"
    using price_map_Some [of count price] by (auto simp: buy_token_def Let_def)
next
  assume "price_map count = None"
  then show "buy_token now count s = (Inl InvalidTokenPack, s)"
    by (simp add: buy_token_def)
qed (auto simp: price_map_def)

theorem buy_token_spec_witness:
  "price_map 1 = Some 50 \<and> price_map 3 = None \<and>
   buy_token 2000 1 st0 =
     (Inr (Redirect ''pricing''),
      st0\<lparr>current_user := alice\<lparr>tokens := 4\<rparr>,
          purchases := [\<lparr>p_id = 1, p_user_id = 1, p_amount = 50,
                         p_description = ''1 Token Pack'', p_timestamp = 2000\<rparr>]\<rparr>) \<and>
   buy_token 2000 3 st0 = (Inl InvalidTokenPack, st0)"
  using buy_token_spec [of 1 50 2000 st0] buy_token_spec [of 3 0 2000 st0]
  by (simp add: st0_def alice_def next_id_def str_int_def str_nat.simps digit_char_def)

lemma upgrade_pro:
  "upgrade now ''pro'' s =
     (Inr (Redirect ''my_resumes''),
      s\<lparr>current_user := (current_user s)\<lparr>tokens := tokens (current_user s) + 15, plan := ''pro''\<rparr>,
        purchases := purchases s @
          [\<lparr>p_id = next_id (map p_id (purchases s)), p_user_id = uid (current_user s),
            p_amount = 199, p_description = ''Pro Pack'', p_timestamp = now\<rparr>]\<rparr>)"
  by (simp add: upgrade_def Let_def)

lemma upgrade_ultimate:
  "upgrade now ''ultimate'' s =
     (Inr (Redirect ''my_resumes''),
      s\<lparr>current_user := (current_user s)\<lparr>tokens := 9999, plan := ''ultimate''\<rparr>,
        purchases := purchases s @
          [\<lparr>p_id = next_id (map p_id (purchases s)), p_user_id = uid (current_user s),
            p_amount = 499, p_description = ''Ultimate Pack'', p_timestamp = now\<rparr>]\<rparr>)"
  by (simp add: upgrade_def Let_def)

lemma upgrade_other:
  "new_plan \<noteq> ''pro'' \<Longrightarrow> new_plan \<noteq> ''ultimate'' \<Longrightarrow>
   upgrade now new_plan s = (Inl InvalidPlan, s)"
  by (simp add: upgrade_def)

text \<open>
  C7: \<open>upgrade\<close> to \<open>pro\<close> adds 15 to the balance, sets the plan to \<open>pro\<close> and appends one
  ledger entry of amount 199; to \<open>ultimate\<close> it sets the balance to 9999, the plan to
  \<open>ultimate\<close> and appends one ledger entry of amount 499; any other plan gives
  \<open>InvalidPlan\<close> and changes neither the account nor the ledger.
\<close>

theorem upgrade_spec:
  "upgrade now ''pro'' s =
     (Inr (Redirect ''my_resumes''),
      s\<lparr>current_user := (current_user s)\<lparr>tokens := tokens (current_user s) + 15, plan := ''pro''\<rparr>,
        purchases := purchases s @
          [\<lparr>p_id = next_id (map p_id (purchases s)), p_user_id = uid (current_user s),
            p_amount = 199, p_description = ''Pro Pack'', p_timestamp = now\<rparr>]\<rparr>) \<and>
   upgrade now ''ultimate'' s =
     (Inr (Redirect ''my_resumes''),
      s\<lparr>current_user := (current_user s)\<lparr>tokens := 9999, plan := ''ultimate''\<rparr>,
        purchases := purchases s @
          [\<lparr>p_id = next_id (map p_id (purchases s)), p_user_id = uid (current_user s),
            p_amount = 499, p_description = ''Ultimate Pack'', p_timestamp = now\<rparr>]\<rparr>) \<and>
   (new_plan \<noteq> ''pro'' \<and> new_plan \<noteq> ''ultimate'' \<longrightarrow>
      upgrade now new_plan s = (Inl InvalidPlan, s))"
  using upgrade_pro [of now s] upgrade_ultimate [of now s] upgrade_other [of new_plan now s]
  by blast

theorem upgrade_spec_witness:
  "''gold'' \<noteq> ''pro'' \<and> ''gold'' \<noteq> ''ultimate'' \<and>
   upgrade 2000 ''gold'' st0 = (Inl InvalidPlan, st0) \<and>
   upgrade 2000 ''pro'' st0 =
     (Inr (Redirect ''my_resumes''),
      st0\<lparr>current_user := alice\<lparr>tokens := 18, plan := ''pro''\<rparr>,
          purchases := [\<lparr>p_id = 1, p_user_id = 1, p_amount = 199,
                         p_description = ''Pro Pack'', p_timestamp = 2000\<rparr>]\<rparr>)"
  using upgrade_spec [of 2000 st0 "''gold''"]
  by (simp add: st0_def alice_def next_id_def)

lemma fold_upgrade_pro:
  "tokens (current_user (fold (\<lambda>t s. snd (upgrade t ''pro'' s)) ts s)) =
     tokens (current_user s) + 15 * int (length ts) \<and>
   plan (current_user (fold (\<lambda>t s. snd (upgrade t ''pro'' s)) ts s)) =
     (if ts = [] then plan (current_user s) else ''pro'') \<and>
   map p_amount (purchases (fold (\<lambda>t s. snd (upgrade t ''pro'' s)) ts s)) =
     map p_amount (purchases s) @ replicate (length ts) 199"
proof (induction ts arbitrary: s)
  case Nil
  show ?case by simp
next
  case (Cons t ts)
  let ?s1 = "snd (upgrade t ''pro'' s)"
  have s1: "tokens (current_user ?s1) = tokens (current_user s) + 15"
    "plan (current_user ?s1) = ''pro''"
    "map p_amount (purchases ?s1) = map p_amount (purchases s) @ [199]"
    by (simp_all add: upgrade_pro)
  from Cons.IH [of ?s1] s1 show ?case
    by simp
qed

text \<open>
  C10: \<open>upgrade\<close> to \<open>pro\<close> does not look at the current plan: on every account it succeeds,
  sets the plan to \<open>pro\<close> and adds 15 to the balance. On an ultimate account with balance
  9999 the account is no longer ultimate afterwards and the balance is 10014. Repeated
  upgrades to \<open>pro\<close>, one per clock reading of \<open>ts\<close>, add 15 tokens and one ledger entry of
  amount 199 each.
\<close>

theorem upgrade_pro_unconditional:
  "fst (upgrade now ''pro'' s) = Inr (Redirect ''my_resumes'') \<and>
   plan (current_user (snd (upgrade now ''pro'' s))) = ''pro'' \<and>
   tokens (current_user (snd (upgrade now ''pro'' s))) = tokens (current_user s) + 15 \<and>
   (plan (current_user s) = ''ultimate'' \<and> tokens (current_user s) = 9999 \<longrightarrow>
      \<not> is_ultimate_user (current_user (snd (upgrade now ''pro'' s))) \<and>
      tokens (current_user (snd (upgrade now ''pro'' s))) = 10014) \<and>
   tokens (current_user (fold (\<lambda>t s. snd (upgrade t ''pro'' s)) ts s)) =
     tokens (current_user s) + 15 * int (length ts) \<and>
   map p_amount (purchases (fold (\<lambda>t s. snd (upgrade t ''pro'' s)) ts s)) =
     map p_amount (purchases s) @ replicate (length ts) 199"
  using fold_upgrade_pro [of ts s] by (simp add: upgrade_pro is_ultimate_user_def)

theorem upgrade_pro_unconditional_witness:
  "plan (current_user (st0\<lparr>current_user := alice\<lparr>plan := ''ultimate'', tokens := 9999\<rparr>\<rparr>)) =
     ''ultimate'' \<and>
   tokens (current_user (st0\<lparr>current_user := alice\<lparr>plan := ''ultimate'', tokens := 9999\<rparr>\<rparr>)) =
     9999 \<and>
   current_user (snd (upgrade 2000 ''pro''
       (st0\<lparr>current_user := alice\<lparr>plan := ''ultimate'', tokens := 9999\<rparr>\<rparr>))) =
     alice\<lparr>plan := ''pro'', tokens := 10014\<rparr> \<and>
   tokens (current_user (fold (\<lambda>t s. snd (upgrade t ''pro'' s)) [2000, 3000] st0)) = 33 \<and>
   map p_amount (purchases (fold (\<lambda>t s. snd (upgrade t ''pro'' s)) [2000, 3000] st0)) =
     [199, 199]"
  using upgrade_pro_unconditional
      [of 2000 "st0\<lparr>current_user := alice\<lparr>plan := ''ultimate'', tokens := 9999\<rparr>\<rparr>" "[]"]
    upgrade_pro_unconditional [of 2000 st0 "[2000, 3000]"]
  by (simp add: st0_def alice_def upgrade_def)

section \<open>Resume store: properties\<close>

text \<open>
  C8: when the resume that the store holds under the requested id belongs to another
  account than the caller's, \<open>delete_resume\<close> gives \<open>Unauthorized\<close> and the state is
  unchanged; the row is still in the table.
\<close>

theorem delete_resume_unauthorized:
  assumes "find (\<lambda>x. r_id x = resume_id) (resumes s) = Some r"
    and "r_user_id r \<noteq> uid (current_user s)"
  shows "delete_resume resume_id s = (Inl Unauthorized, s) \<and>
         r \<in> set (resumes (snd (delete_resume resume_id s)))"
proof -
  from assms have eq: "delete_resume resume_id s = (Inl Unauthorized, s)"
    by (simp add: delete_resume_def)
  from assms(1) have "r \<in> set (resumes s)"
    by (auto simp: find_Some_iff)
  with eq show ?thesis by simp
qed

theorem delete_resume_unauthorized_witness:
  "find (\<lambda>x. r_id x = 7) (resumes st0) = Some bob_resume \<and>
   r_user_id bob_resume \<noteq> uid (current_user st0) \<and>
   delete_resume 7 st0 = (Inl Unauthorized, st0) \<and>
   resumes (snd (delete_resume 7 st0)) = [bob_resume]"
proof -
  have f: "find (\<lambda>x. r_id x = 7) (resumes st0) = Some bob_resume"
    by (simp add: st0_def bob_resume_def)
  have o: "r_user_id bob_resume \<noteq> uid (current_user st0)"
    by (simp add: st0_def bob_resume_def alice_def)
  from delete_resume_unauthorized [OF f o] f o show ?thesis
    by (simp add: st0_def)
qed

section \<open>The balance is never negative\<close>

text \<open>
  C2: every operation that changes a balance keeps it non-negative:
  \<open>reset_tokens_if_needed\<close>, \<open>deduct_token\<close>, \<open>buy_token\<close> (for every count, so for the
  valid packs), \<open>upgrade\<close> (for every plan, so for pro and ultimate), and \<open>register\<close>,
  which leaves non-negative balances in the table of accounts and gives the new account
  the balance 3.
\<close>

theorem tokens_never_negative:
  "(0 \<le> tokens u \<longrightarrow> 0 \<le> tokens (reset_tokens_if_needed now u)) \<and>
   (0 \<le> tokens u \<longrightarrow> 0 \<le> tokens (deduct_token u)) \<and>
   (0 \<le> tokens (current_user s) \<longrightarrow>
      0 \<le> tokens (current_user (snd (buy_token now count s)))) \<and>
   (0 \<le> tokens (current_user s) \<longrightarrow>
      0 \<le> tokens (current_user (snd (upgrade now new_plan s)))) \<and>
   ((\<forall>x \<in> set (users a). 0 \<le> tokens x) \<longrightarrow>
      (\<forall>x \<in> set (users (snd (register generate_password_hash lower now frm a))).
         0 \<le> tokens x)) \<and>
   (fst (register generate_password_hash lower now frm a) = Inr (Redirect ''index'') \<longrightarrow>
      users (snd (register generate_password_hash lower now frm a)) =
        users a @ [last (users (snd (register generate_password_hash lower now frm a)))] \<and>
      tokens (last (users (snd (register generate_password_hash lower now frm a)))) = 3)"
proof (intro conjI impI)
  assume "0 \<le> tokens u"
  then show "0 \<le> tokens (reset_tokens_if_needed now u)"
    by (simp add: reset_tokens_if_needed_def Let_def)
next
  assume "0 \<le> tokens u"
  then show "0 \<le> tokens (deduct_token u)"
    by (simp add: deduct_token_def)
next
  assume nn: "0 \<le> tokens (current_user s)"
  show "0 \<le> tokens (current_user (snd (buy_token now count s)))"
  proof (cases "price_map count")
    case None
    with nn show ?thesis by (simp add: buy_token_def)
  next
    case (Some price)
    from price_map_Some [OF Some] Some nn show ?thesis
      by (auto simp: buy_token_def Let_def)
  qed
next
  assume "0 \<le> tokens (current_user s)"
  then show "0 \<le> tokens (current_user (snd (upgrade now new_plan s)))"
    by (simp add: upgrade_def Let_def)
next
  assume "\<forall>x \<in> set (users a). 0 \<le> tokens x"
  then show "\<forall>x \<in> set (users (snd (register generate_password_hash lower now frm a))).
      0 \<le> tokens x"
    by (auto simp: register_def Let_def)
next
  assume ok: "fst (register generate_password_hash lower now frm a) = Inr (Redirect ''index'')"
  then show "users (snd (register generate_password_hash lower now frm a)) =
      users a @ [last (users (snd (register generate_password_hash lower now frm a)))]"
    by (auto simp: register_def Let_def split: if_splits)
  from ok show
    "tokens (last (users (snd (register generate_password_hash lower now frm a)))) = 3"
    by (auto simp: register_def Let_def split: if_splits)
qed

theorem tokens_never_negative_witness:
  "0 \<le> tokens (alice\<lparr>tokens := 0\<rparr>) \<and> 0 \<le> tokens (current_user st0) \<and>
   map tokens (users acc0) = [3] \<and>
   tokens (reset_tokens_if_needed 90000000000 (alice\<lparr>tokens := 0\<rparr>)) = 3 \<and>
   tokens (deduct_token (alice\<lparr>tokens := 0\<rparr>)) = 0 \<and>
   tokens (current_user (snd (buy_token 90000000000 5 st0))) = 8 \<and>
   tokens (current_user (snd (upgrade 90000000000 ''ultimate'' st0))) = 9999 \<and>
   map tokens (users (snd (register (\<lambda>pw. ''hash:'' @ pw)
       (\<lambda>x. if x = ''Grace'' then ''grace'' else if x = ''Hopper'' then ''hopper'' else x)
       90000000000 frm0 acc0))) = [3, 3] \<and>
   fst (register (\<lambda>pw. ''hash:'' @ pw)
       (\<lambda>x. if x = ''Grace'' then ''grace'' else if x = ''Hopper'' then ''hopper'' else x)
       90000000000 frm0 acc0) = Inr (Redirect ''index'')"
  using tokens_never_negative [of "alice\<lparr>tokens := 0\<rparr>" 90000000000 st0 5 "''ultimate''" acc0
      "\<lambda>pw. ''hash:'' @ pw"
      "\<lambda>x. if x = ''Grace'' then ''grace'' else if x = ''Hopper'' then ''hopper'' else x" frm0]
  by (simp add: alice_def st0_def acc0_def frm0_def reset_tokens_if_needed_def days_def
      day_us_def is_free_user_def deduct_token_def is_ultimate_user_def buy_token_def
      price_map_def upgrade_def register_def Let_def next_id_def)

section \<open>Generation workflow: properties\<close>

lemma reset_keeps [simp]:
  "uid (reset_tokens_if_needed now u) = uid u"
  "plan (reset_tokens_if_needed now u) = plan u"
  by (simp_all add: reset_tokens_if_needed_def Let_def)


lemma strip_no_break_space: "strip [CHR 0xC2, CHR 0xA0] = []"
  by (simp add: strip_def whitespace_def drop_leading.simps split del: if_split)




end
